theory Spec2Isabelle
  imports Complex_Main
begin

section \<open>GridView win-probability engine: data model\<close>

text \<open>
  The prediction engine of the repository is the Python of the prediction design document
  (sections 2.2 to 3.2). It is embedded function by function. Python \<open>float\<close> values are
  modelled as exact reals, Python \<open>int\<close> values as \<open>int\<close>, strings as \<open>string\<close>, and
  every exception the code can raise as the \<open>Inl\<close> branch of a sum type.
\<close>

datatype py_error = IndexError | ZeroDivisionError

text \<open>The value \<open>float('inf')\<close> next to the finite floats.\<close>

datatype py_float = Finite real | PosInf

fun float_lt :: "py_float \<Rightarrow> real \<Rightarrow> bool" where
  "float_lt (Finite x) y = (x < y)"
| "float_lt PosInf y = False"

record WeatherState =
  rain_chance :: real
  track_temp :: real
  air_temp :: real

text \<open>
  \<open>DriverState\<close> with its primary features; \<open>rolling_pace_5lap\<close> is the derived feature
  that \<open>pace_adjustment\<close> reads from the driver object.
\<close>

record DriverState =
  driver_id :: string
  position :: int
  gap_to_leader :: real
  gap_to_ahead :: real
  last_lap_time :: real
  best_lap_time :: real
  lap_times_history :: "real list"
  tire_compound :: string
  tire_age_laps :: int
  pit_stops_completed :: int
  is_on_track :: bool
  in_pit_lane :: bool
  status :: string
  rolling_pace_5lap :: real

record RaceState =
  current_lap :: int
  total_laps :: int
  race_progress :: real
  drivers :: "DriverState list"
  flag_status :: string
  weather :: WeatherState

text \<open>
  \<open>TrackConfig\<close> is only instantiated in the source (the track profiles). Its fields are
  the keyword arguments of those profiles; a stint length that a profile does not give,
  and the \<open>None\<close> of a series without DRS, are \<open>None\<close> here.
\<close>

record TrackConfig =
  overtake_difficulty :: real
  pit_time_loss :: real
  typical_stint_soft :: "int option"
  typical_stint_medium :: "int option"
  typical_stint_hard :: "int option"
  typical_stint_primary :: "int option"
  typical_stint_alternate :: "int option"
  safety_car_probability :: real
  drs_effectiveness :: "real option"

text \<open>
  \<open>PredictionResult\<close> as \<open>compute_win_probability\<close> builds it. The fields \<open>driver_id\<close>
  and \<open>confidence_interval\<close> are named \<open>pr_driver_id\<close> and \<open>confidence_interval_of\<close>
  here, apart from the driver's field and the function of section 3.2. An entry of the
  factor list is a string or Python's \<open>None\<close>.
\<close>

record PredictionResult =
  pr_driver_id :: string
  win_probability :: real
  confidence_interval_of :: "real \<times> real"
  key_factors :: "string option list"

section \<open>Python primitives used by the engine\<close>

text \<open>List indexing \<open>xs[i]\<close>: a negative index counts from the end, anything else raises.\<close>

definition py_index :: "'a list \<Rightarrow> int \<Rightarrow> py_error + 'a" where
  "py_index xs i =
     (if 0 \<le> i \<and> i < int (length xs) then Inr (xs ! nat i)
      else if i < 0 \<and> - int (length xs) \<le> i then Inr (xs ! nat (int (length xs) + i))
      else Inl IndexError)"

text \<open>List repetition \<open>[x] * n\<close>: empty for \<open>n \<le> 0\<close>.\<close>

definition py_repeat :: "'a \<Rightarrow> int \<Rightarrow> 'a list" where
  "py_repeat x n = replicate (nat n) x"

text \<open>True division \<open>a / b\<close> on floats and floor division \<open>a // b\<close> on ints.\<close>

definition py_truediv :: "real \<Rightarrow> real \<Rightarrow> py_error + real" where
  "py_truediv a b = (if b = 0 then Inl ZeroDivisionError else Inr (a / b))"

definition py_floordiv :: "int \<Rightarrow> int \<Rightarrow> py_error + int" where
  "py_floordiv a b = (if b = 0 then Inl ZeroDivisionError else Inr (a div b))"

text \<open>\<open>str(n)\<close> for an int.\<close>

fun str_nat :: "nat \<Rightarrow> string" where
  "str_nat n =
     (if n < 10 then [''0123456789'' ! n]
      else str_nat (n div 10) @ [''0123456789'' ! (n mod 10)])"

declare str_nat.simps [simp del]

definition str_int :: "int \<Rightarrow> string" where
  "str_int i = (if i < 0 then ''-'' @ str_nat (nat (- i)) else str_nat (nat i))"

text \<open>
  The format specification \<open>+.1%\<close>: the value times 100 with one decimal, rounded half to
  even, always signed, followed by a percent sign.
\<close>

definition round_half_even :: "real \<Rightarrow> int" where
  "round_half_even x =
     (let f = \<lfloor>x\<rfloor>; r = x - of_int f
      in if r < 1 / 2 then f else if 1 / 2 < r then f + 1 else if even f then f else f + 1)"

definition format_percent :: "real \<Rightarrow> string" where
  "format_percent x =
     (let n = round_half_even (\<bar>x\<bar> * 1000)
      in (if x < 0 then ''-'' else ''+'') @ str_int (n div 10) @ ''.'' @ str_int (n mod 10) @ ''%'')"

section \<open>Component 1: position baseline\<close>

definition baseline_weights :: "int \<Rightarrow> int \<Rightarrow> real list" where
  "baseline_weights laps_remaining total_drivers =
     (if laps_remaining > 20 then
        [0.65, 0.18, 0.08, 0.04, 0.02] @ py_repeat 0.01 (total_drivers - 5)
      else if laps_remaining > 10 then
        [0.75, 0.14, 0.06, 0.03, 0.01] @ py_repeat 0.005 (total_drivers - 5)
      else
        [0.85, 0.10, 0.03, 0.015, 0.005] @ py_repeat 0.001 (total_drivers - 5))"

definition position_baseline :: "int \<Rightarrow> int \<Rightarrow> int \<Rightarrow> py_error + real" where
  "position_baseline pos laps_remaining total_drivers =
     (let weights = baseline_weights laps_remaining total_drivers
      in if pos \<le> int (length weights) then py_index weights (pos - 1) else Inr 0.001)"

section \<open>Component 2: pace differential\<close>

definition pace_delta_of :: "DriverState \<Rightarrow> DriverState \<Rightarrow> real" where
  "pace_delta_of driver leader = rolling_pace_5lap leader - rolling_pace_5lap driver"

definition laps_to_catch :: "real \<Rightarrow> real \<Rightarrow> py_error + py_float" where
  "laps_to_catch gap pace_delta =
     (if pace_delta > 0 then
        (case py_truediv gap pace_delta of Inl e \<Rightarrow> Inl e | Inr q \<Rightarrow> Inr (Finite q))
      else Inr PosInf)"

definition can_catch_of :: "py_float \<Rightarrow> int \<Rightarrow> bool" where
  "can_catch_of ltc laps_remaining = float_lt ltc (of_int laps_remaining * 0.9)"

definition pace_adjustment ::
  "DriverState \<Rightarrow> DriverState \<Rightarrow> real \<Rightarrow> int \<Rightarrow> real \<Rightarrow> py_error + real" where
  "pace_adjustment driver leader gap laps_remaining track_difficulty =
     (let pace_delta = pace_delta_of driver leader
      in case laps_to_catch gap pace_delta of
           Inl e \<Rightarrow> Inl e
         | Inr ltc \<Rightarrow>
             (let can_catch = can_catch_of ltc laps_remaining;
                  overtake_factor = 1.0 - (track_difficulty * 0.5)
              in if pace_delta > 0.5 then
                   Inr (if can_catch then 0.15 * overtake_factor else 0.02)
                 else if pace_delta > 0.2 then
                   Inr (if can_catch then 0.08 * overtake_factor else 0.01)
                 else if pace_delta < - 0.3 then Inr (- 0.10)
                 else Inr 0.0))"

text \<open>
  The same function with the rounding of Python's float arithmetic made explicit. The
  parameter \<open>rnd\<close> stands for rounding to the nearest float: it is applied to every
  float literal, to the conversion of the int \<open>laps_remaining\<close>, and to the exact result
  of every subtraction, division and multiplication, in the order in which the source
  evaluates them. Nothing is assumed of \<open>rnd\<close>; with the identity it is
  \<open>pace_adjustment\<close>. It is the version to use where a statement depends on the
  branch a float comparison takes, since a rounding tie can decide \<open>can_catch\<close>.
\<close>

definition rounded_pace_delta :: "(real \<Rightarrow> real) \<Rightarrow> DriverState \<Rightarrow> DriverState \<Rightarrow> real" where
  "rounded_pace_delta rnd driver leader =
     rnd (rolling_pace_5lap leader - rolling_pace_5lap driver)"

definition rounded_laps_to_catch :: "(real \<Rightarrow> real) \<Rightarrow> real \<Rightarrow> real \<Rightarrow> py_error + py_float" where
  "rounded_laps_to_catch rnd gap pace_delta =
     (if pace_delta > 0 then
        (case py_truediv gap pace_delta of Inl e \<Rightarrow> Inl e | Inr q \<Rightarrow> Inr (Finite (rnd q)))
      else Inr PosInf)"

definition rounded_can_catch :: "(real \<Rightarrow> real) \<Rightarrow> py_float \<Rightarrow> int \<Rightarrow> bool" where
  "rounded_can_catch rnd ltc laps_remaining =
     float_lt ltc (rnd (rnd (of_int laps_remaining) * rnd 0.9))"

definition rounded_overtake_factor :: "(real \<Rightarrow> real) \<Rightarrow> real \<Rightarrow> real" where
  "rounded_overtake_factor rnd track_difficulty =
     rnd (rnd 1.0 - rnd (track_difficulty * rnd 0.5))"

definition pace_adjustment_rounded ::
  "(real \<Rightarrow> real) \<Rightarrow> DriverState \<Rightarrow> DriverState \<Rightarrow> real \<Rightarrow> int \<Rightarrow> real
     \<Rightarrow> py_error + real" where
  "pace_adjustment_rounded rnd driver leader gap laps_remaining track_difficulty =
     (let pace_delta = rounded_pace_delta rnd driver leader
      in case rounded_laps_to_catch rnd gap pace_delta of
           Inl e \<Rightarrow> Inl e
         | Inr ltc \<Rightarrow>
             (let can_catch = rounded_can_catch rnd ltc laps_remaining;
                  overtake_factor = rounded_overtake_factor rnd track_difficulty
              in if pace_delta > rnd 0.5 then
                   Inr (if can_catch then rnd (rnd 0.15 * overtake_factor) else rnd 0.02)
                 else if pace_delta > rnd 0.2 then
                   Inr (if can_catch then rnd (rnd 0.08 * overtake_factor) else rnd 0.01)
                 else if pace_delta < - rnd 0.3 then Inr (- rnd 0.10)
                 else Inr (rnd 0.0)))"

section \<open>Component 3: strategy projection\<close>

definition tire_life :: "(string \<times> int) list" where
  "tire_life =
     [(''SOFT'', 15), (''MEDIUM'', 25), (''HARD'', 35), (''PRIMARY'', 30), (''ALTERNATE'', 35)]"

definition estimate_remaining_stops :: "DriverState \<Rightarrow> int \<Rightarrow> py_error + int" where
  "estimate_remaining_stops driver laps_remaining =
     (let max_stint = (case map_of tire_life (tire_compound driver) of None \<Rightarrow> 25 | Some v \<Rightarrow> v);
          laps_on_current = tire_age_laps driver;
          remaining_on_current = max_stint - laps_on_current
      in if remaining_on_current \<ge> laps_remaining then Inr 0
         else
           (let laps_after_stop = laps_remaining - remaining_on_current
            in case py_floordiv laps_after_stop max_stint of
                 Inl e \<Rightarrow> Inl e
               | Inr q \<Rightarrow> Inr (1 + q)))"

text \<open>
  The loop over the competitors: \<open>Inr (Some r)\<close> is the early return of the undercut
  branch, \<open>Inr None\<close> is falling out of the loop.
\<close>

fun undercut_loop ::
  "DriverState \<Rightarrow> DriverState list \<Rightarrow> int \<Rightarrow> py_error + (real \<times> string) option" where
  "undercut_loop driver [] laps_remaining = Inr None"
| "undercut_loop driver (competitor # rest) laps_remaining =
     (if position competitor = position driver + 1 then
        (case estimate_remaining_stops competitor laps_remaining of
           Inl e \<Rightarrow> Inl e
         | Inr expected_stops_comp \<Rightarrow>
             if tire_age_laps competitor < tire_age_laps driver - 5 then
               Inr (Some (- 0.05, ''Undercut vulnerable to P'' @ str_int (position competitor)))
             else undercut_loop driver rest laps_remaining)
      else undercut_loop driver rest laps_remaining)"

definition strategy_projection ::
  "DriverState \<Rightarrow> DriverState list \<Rightarrow> int \<Rightarrow> real \<Rightarrow> py_error + (real \<times> string)" where
  "strategy_projection driver competitors laps_remaining pit_loss =
     (case estimate_remaining_stops driver laps_remaining of
        Inl e \<Rightarrow> Inl e
      | Inr expected_stops_driver \<Rightarrow>
          (case undercut_loop driver competitors laps_remaining of
             Inl e \<Rightarrow> Inl e
           | Inr (Some r) \<Rightarrow> Inr r
           | Inr None \<Rightarrow>
               if tire_compound driver = ''HARD'' \<and> position driver > 1 then
                 (case py_index competitors 0 of
                    Inl e \<Rightarrow> Inl e
                  | Inr leader \<Rightarrow>
                      if tire_compound leader \<in> set [''SOFT'', ''MEDIUM'']
                         \<and> tire_age_laps leader > 15
                      then Inr (0.05, ''Overcut potential as leader on worn tires'')
                      else Inr (0.0, ''Strategy neutral''))
               else Inr (0.0, ''Strategy neutral'')))"

section \<open>Component 4: safety car and caution\<close>

definition safety_car_adjustment :: "DriverState \<Rightarrow> string \<Rightarrow> real \<Rightarrow> int \<Rightarrow> real" where
  "safety_car_adjustment driver flag gap laps_remaining =
     (if flag \<notin> set [''SC'', ''VSC'', ''YELLOW''] then 0.0
      else if position driver = 1 then - 0.10
      else if position driver \<le> 5 then 0.05 + of_int (5 - position driver) * 0.02
      else 0.02)"

section \<open>Ensemble combination\<close>

text \<open>
  The body of \<open>compute_win_probability\<close> up to the four adjustments, in the order of the
  source: base probability, leader lookup, pace, strategy, safety car.
\<close>

definition ensemble_components ::
  "DriverState \<Rightarrow> RaceState \<Rightarrow> DriverState list \<Rightarrow> TrackConfig
     \<Rightarrow> py_error + (real \<times> real \<times> real \<times> string \<times> real)" where
  "ensemble_components driver race_state all_drivers track_config =
     (let laps_remaining = total_laps race_state - current_lap race_state
      in case position_baseline (position driver) laps_remaining (int (length all_drivers)) of
           Inl e \<Rightarrow> Inl e
         | Inr base_prob \<Rightarrow>
        (case py_index all_drivers 0 of
           Inl e \<Rightarrow> Inl e
         | Inr leader \<Rightarrow>
        (case pace_adjustment driver leader (gap_to_leader driver) laps_remaining
                (overtake_difficulty track_config) of
           Inl e \<Rightarrow> Inl e
         | Inr pace_adj \<Rightarrow>
        (case strategy_projection driver all_drivers laps_remaining
                (pit_time_loss track_config) of
           Inl e \<Rightarrow> Inl e
         | Inr (strat_adj, strat_reason) \<Rightarrow>
             (let sc_adj = safety_car_adjustment driver (flag_status race_state)
                             (gap_to_leader driver) laps_remaining
              in Inr (base_prob, pace_adj, strat_adj, strat_reason, sc_adj))))))"

text \<open>The local variable \<open>raw_prob\<close>.\<close>

definition raw_prob ::
  "DriverState \<Rightarrow> RaceState \<Rightarrow> DriverState list \<Rightarrow> TrackConfig \<Rightarrow> py_error + real" where
  "raw_prob driver race_state all_drivers track_config =
     (case ensemble_components driver race_state all_drivers track_config of
        Inl e \<Rightarrow> Inl e
      | Inr (base_prob, pace_adj, strat_adj, strat_reason, sc_adj) \<Rightarrow>
          Inr (base_prob + pace_adj + strat_adj + sc_adj))"

definition confidence_width_of :: "RaceState \<Rightarrow> real" where
  "confidence_width_of race_state = 0.25 * (1.0 - race_progress race_state) + 0.05"

definition compute_win_probability ::
  "DriverState \<Rightarrow> RaceState \<Rightarrow> DriverState list \<Rightarrow> TrackConfig
     \<Rightarrow> py_error + PredictionResult" where
  "compute_win_probability driver race_state all_drivers track_config =
     (case ensemble_components driver race_state all_drivers track_config of
        Inl e \<Rightarrow> Inl e
      | Inr (base_prob, pace_adj, strat_adj, strat_reason, sc_adj) \<Rightarrow>
          (let raw = base_prob + pace_adj + strat_adj + sc_adj;
               confidence_width = confidence_width_of race_state
           in Inr \<lparr> pr_driver_id = driver_id driver,
                    win_probability = max 0.001 (min 0.99 raw),
                    confidence_interval_of =
                      (max 0.0 (raw - confidence_width), min 1.0 (raw + confidence_width)),
                    key_factors =
                      [Some (''Position: P'' @ str_int (position driver)),
                       Some (''Pace: '' @ format_percent pace_adj @ '' adjustment''),
                       (if strat_adj \<noteq> 0 then Some strat_reason else None),
                       (if sc_adj > 0 then Some ''SC boost'' else None)] \<rparr>))"

section \<open>Confidence interval (section 3.2 of the design)\<close>

definition progress_factor :: "real \<Rightarrow> real" where
  "progress_factor progress = 0.30 * (1.0 - progress)"

definition staleness_factor :: "real \<Rightarrow> real" where
  "staleness_factor data_staleness = min 0.10 (data_staleness / 60.0 * 0.05)"

definition pit_factor :: "bool \<Rightarrow> real" where
  "pit_factor has_pit_data = (if \<not> has_pit_data then 0.05 else 0.0)"

definition total_width :: "real \<Rightarrow> real \<Rightarrow> bool \<Rightarrow> real" where
  "total_width progress data_staleness has_pit_data =
     progress_factor progress + staleness_factor data_staleness + pit_factor has_pit_data + 0.05"

definition confidence_interval :: "real \<Rightarrow> real \<Rightarrow> real \<Rightarrow> bool \<Rightarrow> real \<times> real" where
  "confidence_interval base_probability progress data_staleness has_pit_data =
     (let w = total_width progress data_staleness has_pit_data;
          lower = max 0.0 (base_probability - w / 2);
          upper = min 1.0 (base_probability + w / 2)
      in (lower, upper))"


section \<open>Conditions named by the specification\<close>

text \<open>
  The flag states the safety-car component treats as caution (the list literal of
  \<open>safety_car_adjustment\<close>).
\<close>

definition caution_flag :: "string \<Rightarrow> bool" where
  "caution_flag flag = (flag \<in> set [''SC'', ''VSC'', ''YELLOW''])"

text \<open>
  The value of one bucket of the baseline table at 1-based position \<open>p\<close> in a field of
  \<open>N\<close> entrants: the five leading weights, then the tail weight up to position \<open>N\<close>, then
  the minimal weight.
\<close>

definition bucket_value :: "real list \<Rightarrow> real \<Rightarrow> int \<Rightarrow> int \<Rightarrow> real" where
  "bucket_value first_five tail_weight p N =
     (if p \<le> 5 then first_five ! nat (p - 1) else if p \<le> N then tail_weight else 0.001)"

text \<open>
  The table selection in the words of the specification: buckets "more than 20 laps",
  "10 to 20 laps" and "fewer than 10 laps" remaining. It is compared with
  \<open>baseline_weights\<close>, the selection the code makes.
\<close>

definition spec_bucket_weights :: "int \<Rightarrow> int \<Rightarrow> real list" where
  "spec_bucket_weights laps_remaining total_drivers =
     (if laps_remaining > 20 then
        [0.65, 0.18, 0.08, 0.04, 0.02] @ py_repeat 0.01 (total_drivers - 5)
      else if laps_remaining \<ge> 10 then
        [0.75, 0.14, 0.06, 0.03, 0.01] @ py_repeat 0.005 (total_drivers - 5)
      else
        [0.85, 0.10, 0.03, 0.015, 0.005] @ py_repeat 0.001 (total_drivers - 5))"

text \<open>
  "The laps needed to close the gap at the current pace delta are fewer than 90% of the
  remaining laps": the driver is faster than the leader and the quotient of gap and pace
  delta is below nine tenths of the laps remaining.
\<close>

definition closing_feasible :: "DriverState \<Rightarrow> DriverState \<Rightarrow> real \<Rightarrow> int \<Rightarrow> bool" where
  "closing_feasible driver leader gap laps_remaining =
     (pace_delta_of driver leader > 0
      \<and> gap / pace_delta_of driver leader < of_int laps_remaining * 0.9)"

text \<open>
  The same condition as the code computes it in float arithmetic: the rounded pace delta
  is positive and the rounded quotient is below the rounded product of the laps remaining
  and the literal 0.9.
\<close>

definition computed_closing_feasible ::
  "(real \<Rightarrow> real) \<Rightarrow> DriverState \<Rightarrow> DriverState \<Rightarrow> real \<Rightarrow> int \<Rightarrow> bool" where
  "computed_closing_feasible rnd driver leader gap laps_remaining =
     (rounded_pace_delta rnd driver leader > 0
      \<and> rnd (gap / rounded_pace_delta rnd driver leader)
          < rnd (rnd (of_int laps_remaining) * rnd 0.9))"

text \<open>
  The two conditions of the strategy component, as the code tests them. Undercut: some
  competitor one position behind has tires more than 5 laps fresher. Overcut: the driver
  is on the hard compound, is not in position 1, and the first entry of the competitor
  list is on soft or medium tires more than 15 laps old.
\<close>

definition undercut_condition :: "DriverState \<Rightarrow> DriverState list \<Rightarrow> bool" where
  "undercut_condition driver competitors =
     list_ex (\<lambda>c. position c = position driver + 1
                   \<and> tire_age_laps c < tire_age_laps driver - 5) competitors"

definition overcut_condition :: "DriverState \<Rightarrow> DriverState list \<Rightarrow> bool" where
  "overcut_condition driver competitors =
     (tire_compound driver = ''HARD'' \<and> position driver > 1
      \<and> (case competitors of
            [] \<Rightarrow> False
          | leader # _ \<Rightarrow>
              tire_compound leader \<in> set [''SOFT'', ''MEDIUM''] \<and> tire_age_laps leader > 15))"

text \<open>
  The overcut condition in the words of the specification: the driver trails a leader
  who is on materially older, softer-compound tires. Nothing is asked of the driver's
  own compound.
\<close>

definition spec_overcut_potential :: "DriverState \<Rightarrow> DriverState list \<Rightarrow> bool" where
  "spec_overcut_potential driver competitors =
     (position driver > 1
      \<and> (case competitors of
            [] \<Rightarrow> False
          | leader # _ \<Rightarrow>
              tire_compound leader \<in> set [''SOFT'', ''MEDIUM''] \<and> tire_age_laps leader > 15))"

text \<open>The width of an interval given as a pair of bounds.\<close>

definition interval_width :: "real \<times> real \<Rightarrow> real" where
  "interval_width ci = snd ci - fst ci"

section \<open>Example snapshots\<close>

definition leader_example :: DriverState where
  "leader_example =
     \<lparr> driver_id = ''44'', position = 1, gap_to_leader = 0, gap_to_ahead = 0,
       last_lap_time = 90, best_lap_time = 89, lap_times_history = [90, 90, 90],
       tire_compound = ''MEDIUM'', tire_age_laps = 10, pit_stops_completed = 1,
       is_on_track = True, in_pit_lane = False, status = ''RUNNING'',
       rolling_pace_5lap = 90 \<rparr>"

definition green_race_example :: RaceState where
  "green_race_example =
     \<lparr> current_lap = 50, total_laps = 55, race_progress = 0.9, drivers = [leader_example],
       flag_status = ''GREEN'',
       weather = \<lparr> rain_chance = 0, track_temp = 30, air_temp = 20 \<rparr> \<rparr>"

text \<open>The Monza profile of the track configuration table.\<close>

definition track_example :: TrackConfig where
  "track_example =
     \<lparr> overtake_difficulty = 0.40, pit_time_loss = 25.0,
       typical_stint_soft = Some 12, typical_stint_medium = Some 22,
       typical_stint_hard = Some 32, typical_stint_primary = None,
       typical_stint_alternate = None,
       safety_car_probability = 0.25, drs_effectiveness = Some 0.9 \<rparr>"

text \<open>A faster car in second place, 100 seconds behind, on fresh medium tires.\<close>

definition chaser_example :: DriverState where
  "chaser_example =
     leader_example \<lparr> driver_id := ''16'', position := 2, gap_to_leader := 100,
       gap_to_ahead := 100, tire_age_laps := 2, rolling_pace_5lap := 89 \<rparr>"

text \<open>A leader on soft tires that are 20 laps old, and a car in third on fresh tires.\<close>

definition soft_leader_example :: DriverState where
  "soft_leader_example = leader_example \<lparr> tire_compound := ''SOFT'', tire_age_laps := 20 \<rparr>"

definition third_example :: DriverState where
  "third_example =
     leader_example \<lparr> driver_id := ''4'', position := 3, gap_to_leader := 101,
       gap_to_ahead := 1, tire_age_laps := 1, rolling_pace_5lap := 90 \<rparr>"

definition hard_chaser_example :: DriverState where
  "hard_chaser_example = chaser_example \<lparr> tire_compound := ''HARD'', tire_age_laps := 12 \<rparr>"

text \<open>
  A slow car in eighth place on worn tires with a fresher car in ninth behind it, and
  the three-car field they form with the leader.
\<close>

definition backmarker_example :: DriverState where
  "backmarker_example =
     leader_example \<lparr> driver_id := ''77'', position := 8, gap_to_leader := 60,
       gap_to_ahead := 3, tire_age_laps := 12, rolling_pace_5lap := 91 \<rparr>"

definition ninth_example :: DriverState where
  "ninth_example =
     leader_example \<lparr> driver_id := ''31'', position := 9, gap_to_leader := 61,
       gap_to_ahead := 1, tire_age_laps := 1, rolling_pace_5lap := 91 \<rparr>"

definition field_example :: "DriverState list" where
  "field_example = [leader_example, backmarker_example, ninth_example]"

text \<open>
  A complete field of nine cars in position order, the slow car eighth with the fresher
  car ninth behind it, and a race state five laps from the end under a green flag.
\<close>

definition midfield_example :: "int \<Rightarrow> DriverState" where
  "midfield_example n =
     leader_example \<lparr> driver_id := ''car'' @ str_int n, position := n,
       gap_to_leader := of_int (n - 1) * 5, gap_to_ahead := 5 \<rparr>"

definition grid_example :: "DriverState list" where
  "grid_example =
     [leader_example, midfield_example 2, midfield_example 3, midfield_example 4,
      midfield_example 5, midfield_example 6, midfield_example 7, backmarker_example,
      ninth_example]"

definition late_race_example :: RaceState where
  "late_race_example =
     \<lparr> current_lap = 45, total_laps = 50, race_progress = 0.9, drivers = grid_example,
       flag_status = ''GREEN'',
       weather = \<lparr> rain_chance = 0, track_temp = 30, air_temp = 20 \<rparr> \<rparr>"

lemmas example_defs =
  leader_example_def green_race_example_def track_example_def chaser_example_def
  soft_leader_example_def third_example_def hard_chaser_example_def
  backmarker_example_def ninth_example_def field_example_def

lemmas grid_defs = midfield_example_def grid_example_def late_race_example_def

section \<open>Facts about the primitives and the components\<close>

lemmas engine_defs =
  compute_win_probability_def raw_prob_def ensemble_components_def position_baseline_def
  baseline_weights_def py_index_def py_repeat_def pace_adjustment_def pace_delta_of_def
  laps_to_catch_def py_truediv_def can_catch_of_def strategy_projection_def
  estimate_remaining_stops_def tire_life_def py_floordiv_def safety_car_adjustment_def
  confidence_width_of_def format_percent_def round_half_even_def str_int_def str_nat.simps

lemma py_index_first: "py_index xs 0 = (case xs of [] \<Rightarrow> Inl IndexError | x # _ \<Rightarrow> Inr x)"
  by (cases xs) (simp_all add: py_index_def)

lemma length_baseline_weights: "int (length (baseline_weights L N)) = max 5 N"
  by (simp add: baseline_weights_def py_repeat_def)

lemma position_baseline_index:
  assumes "1 \<le> p"
  shows "position_baseline p L N =
           Inr (if p \<le> max 5 N then baseline_weights L N ! nat (p - 1) else 0.001)"
  using assms by (simp add: position_baseline_def Let_def py_index_def length_baseline_weights)

lemma first_five_cases:
  assumes "1 \<le> p" "p \<le> 5"
  shows "p = 1 \<or> p = 2 \<or> p = 3 \<or> p = 4 \<or> p = (5::int)"
  using assms by arith

lemma nth_bucket:
  assumes "1 \<le> p"
  shows "(if p \<le> max 5 N then ([a, b, c, d, e] @ py_repeat t (N - 5)) ! nat (p - 1) else 0.001)
           = bucket_value [a, b, c, d, e] t p N"
proof (cases "p \<le> 5")
  case True
  with assms have "p = 1 \<or> p = 2 \<or> p = 3 \<or> p = 4 \<or> p = 5" by (rule first_five_cases)
  then show ?thesis by (auto simp: bucket_value_def)
next
  case False
  then show ?thesis by (auto simp: bucket_value_def nth_append py_repeat_def)
qed

lemma position_baseline_explicit:
  assumes "1 \<le> p"
  shows "position_baseline p L N =
           Inr (if L > 20 then bucket_value [0.65, 0.18, 0.08, 0.04, 0.02] 0.01 p N
                else if L > 10 then bucket_value [0.75, 0.14, 0.06, 0.03, 0.01] 0.005 p N
                else bucket_value [0.85, 0.10, 0.03, 0.015, 0.005] 0.001 p N)"
proof -
  consider (early) "L > 20" | (mid) "\<not> L > 20" "L > 10" | (late) "\<not> L > 20" "\<not> L > 10"
    by blast
  then show ?thesis
  proof cases
    case early
    then have "baseline_weights L N = [0.65, 0.18, 0.08, 0.04, 0.02] @ py_repeat 0.01 (N - 5)"
      by (simp only: baseline_weights_def if_True)
    then show ?thesis
      using early nth_bucket [OF assms] by (simp only: position_baseline_index [OF assms] if_True)
  next
    case mid
    then have "baseline_weights L N = [0.75, 0.14, 0.06, 0.03, 0.01] @ py_repeat 0.005 (N - 5)"
      by (simp only: baseline_weights_def if_True if_False)
    then show ?thesis
      using mid nth_bucket [OF assms]
      by (simp only: position_baseline_index [OF assms] if_True if_False)
  next
    case late
    then have "baseline_weights L N = [0.85, 0.10, 0.03, 0.015, 0.005] @ py_repeat 0.001 (N - 5)"
      by (simp only: baseline_weights_def if_False)
    then show ?thesis
      using late nth_bucket [OF assms]
      by (simp only: position_baseline_index [OF assms] if_False)
  qed
qed

lemma laps_to_catch_guarded:
  "laps_to_catch gap pd = (if pd > 0 then Inr (Finite (gap / pd)) else Inr PosInf)"
  by (simp add: laps_to_catch_def py_truediv_def)

lemma can_catch_feasible:
  "can_catch_of (if pace_delta_of d l > 0 then Finite (gap / pace_delta_of d l) else PosInf) L
     = closing_feasible d l gap L"
  by (simp add: can_catch_of_def closing_feasible_def)

lemma pace_adjustment_value:
  "pace_adjustment d l gap L td =
     Inr (if pace_delta_of d l > 0.5 then
            (if closing_feasible d l gap L then 0.15 * (1 - td * 0.5) else 0.02)
          else if pace_delta_of d l > 0.2 then
            (if closing_feasible d l gap L then 0.08 * (1 - td * 0.5) else 0.01)
          else if pace_delta_of d l < - 0.3 then - 0.10
          else 0)"
  by (simp add: pace_adjustment_def laps_to_catch_guarded Let_def can_catch_of_def
      closing_feasible_def)

lemma decaying_gain_above_flat: "0 \<le> y \<Longrightarrow> 0.02 < 0.05 + y * (0.02::real)"
  by simp

lemma safety_car_adjustment_caution:
  assumes "caution_flag flag"
  shows "safety_car_adjustment d flag g L =
           (if position d = 1 then - 0.10
            else if position d \<le> 5 then 0.05 + of_int (5 - position d) * 0.02
            else 0.02)"
  using assms by (simp add: safety_car_adjustment_def caution_flag_def)

lemma max_stint_positive:
  "0 < (case map_of tire_life c of None \<Rightarrow> (25::int) | Some v \<Rightarrow> v)"
  by (simp add: tire_life_def)

lemma estimate_remaining_stops_returns: "\<exists>n. estimate_remaining_stops d L = Inr n"
proof -
  have "(case map_of tire_life (tire_compound d) of None \<Rightarrow> (25::int) | Some v \<Rightarrow> v) \<noteq> 0"
    using max_stint_positive [of "tire_compound d"] by simp
  then show ?thesis
    by (simp add: estimate_remaining_stops_def py_floordiv_def Let_def)
qed

lemma undercut_loop_value:
  "undercut_loop d cs L =
     Inr (if undercut_condition d cs
          then Some (- 0.05, ''Undercut vulnerable to P'' @ str_int (position d + 1))
          else None)"
proof (induction cs)
  case Nil
  then show ?case by (simp add: undercut_condition_def)
next
  case (Cons c cs)
  obtain n where n: "estimate_remaining_stops c L = Inr n"
    using estimate_remaining_stops_returns by blast
  have step: "undercut_condition d (c # cs) =
      ((position c = position d + 1 \<and> tire_age_laps c < tire_age_laps d - 5)
       \<or> undercut_condition d cs)"
    by (simp add: undercut_condition_def)
  show ?case
    by (simp only: undercut_loop.simps n step Cons.IH sum.case) auto
qed

lemma strategy_projection_value:
  "strategy_projection d cs L pit_loss =
     (if undercut_condition d cs then
        Inr (- 0.05, ''Undercut vulnerable to P'' @ str_int (position d + 1))
      else if tire_compound d = ''HARD'' \<and> position d > 1 then
        (case cs of
           [] \<Rightarrow> Inl IndexError
         | leader # _ \<Rightarrow>
             if tire_compound leader \<in> set [''SOFT'', ''MEDIUM''] \<and> tire_age_laps leader > 15
             then Inr (0.05, ''Overcut potential as leader on worn tires'')
             else Inr (0, ''Strategy neutral''))
      else Inr (0, ''Strategy neutral''))"
proof -
  obtain n where n: "estimate_remaining_stops d L = Inr n"
    using estimate_remaining_stops_returns by blast
  show ?thesis
    by (simp add: strategy_projection_def n undercut_loop_value py_index_first
        split: list.splits)
qed

lemma strategy_projection_nonempty:
  assumes "cs \<noteq> []"
  shows "strategy_projection d cs L pit_loss =
           Inr (if undercut_condition d cs then
                  (- 0.05, ''Undercut vulnerable to P'' @ str_int (position d + 1))
                else if overcut_condition d cs then
                  (0.05, ''Overcut potential as leader on worn tires'')
                else (0, ''Strategy neutral''))"
  using assms
  by (cases cs) (auto simp: strategy_projection_value overcut_condition_def)

lemma strategy_projection_returns:
  assumes "cs \<noteq> []"
  shows "\<exists>a why. strategy_projection d cs L pit_loss = Inr (a, why)"
  using strategy_projection_nonempty [OF assms, of d L pit_loss] by (metis surj_pair)

lemma ensemble_components_value:
  assumes "1 \<le> position d"
  shows "\<exists>base pace strat why.
           position_baseline (position d) (total_laps rs - current_lap rs)
             (int (length (leader # rest))) = Inr base
         \<and> pace_adjustment d leader (gap_to_leader d) (total_laps rs - current_lap rs)
             (overtake_difficulty tc) = Inr pace
         \<and> strategy_projection d (leader # rest) (total_laps rs - current_lap rs)
             (pit_time_loss tc) = Inr (strat, why)
         \<and> ensemble_components d rs (leader # rest) tc =
             Inr (base, pace, strat, why,
                  safety_car_adjustment d (flag_status rs) (gap_to_leader d)
                    (total_laps rs - current_lap rs))"
proof -
  obtain base where b: "position_baseline (position d) (total_laps rs - current_lap rs)
             (int (length (leader # rest))) = Inr base"
    using position_baseline_index [OF assms] by blast
  obtain pace where p: "pace_adjustment d leader (gap_to_leader d)
             (total_laps rs - current_lap rs) (overtake_difficulty tc) = Inr pace"
    using pace_adjustment_value by blast
  obtain strat why where s: "strategy_projection d (leader # rest)
             (total_laps rs - current_lap rs) (pit_time_loss tc) = Inr (strat, why)"
    using strategy_projection_returns [of "leader # rest"] by blast
  have "ensemble_components d rs (leader # rest) tc =
             Inr (base, pace, strat, why,
                  safety_car_adjustment d (flag_status rs) (gap_to_leader d)
                    (total_laps rs - current_lap rs))"
    unfolding ensemble_components_def Let_def using b p s by (simp add: py_index_first)
  with b p s show ?thesis by blast
qed

lemma ensemble_components_parts:
  assumes "ensemble_components d rs all_drivers tc = Inr (base, pace, strat, why, sc)"
  shows "\<exists>leader rest. all_drivers = leader # rest
         \<and> position_baseline (position d) (total_laps rs - current_lap rs)
             (int (length all_drivers)) = Inr base
         \<and> pace_adjustment d leader (gap_to_leader d) (total_laps rs - current_lap rs)
             (overtake_difficulty tc) = Inr pace
         \<and> strategy_projection d all_drivers (total_laps rs - current_lap rs)
             (pit_time_loss tc) = Inr (strat, why)
         \<and> sc = safety_car_adjustment d (flag_status rs) (gap_to_leader d)
                    (total_laps rs - current_lap rs)"
  using assms unfolding ensemble_components_def Let_def
  by (cases all_drivers) (auto simp: py_index_first split: sum.splits prod.splits)

lemma compute_win_probability_value:
  assumes "ensemble_components d rs all_drivers tc = Inr (base, pace, strat, why, sc)"
  shows "compute_win_probability d rs all_drivers tc =
           Inr \<lparr> pr_driver_id = driver_id d,
                 win_probability = max 0.001 (min 0.99 (base + pace + strat + sc)),
                 confidence_interval_of =
                   (max 0 (base + pace + strat + sc - confidence_width_of rs),
                    min 1 (base + pace + strat + sc + confidence_width_of rs)),
                 key_factors =
                   [Some (''Position: P'' @ str_int (position d)),
                    Some (''Pace: '' @ format_percent pace @ '' adjustment''),
                    (if strat \<noteq> 0 then Some why else None),
                    (if sc > 0 then Some ''SC boost'' else None)] \<rparr>"
  using assms by (simp add: compute_win_probability_def Let_def)

lemma compute_win_probability_Inr:
  assumes "compute_win_probability d rs all_drivers tc = Inr res"
  shows "\<exists>base pace strat why sc.
           ensemble_components d rs all_drivers tc = Inr (base, pace, strat, why, sc)"
  using assms unfolding compute_win_probability_def
  by (cases "ensemble_components d rs all_drivers tc") auto

lemma ensemble_components_progress:
  "ensemble_components d (rs \<lparr> race_progress := p \<rparr>) all_drivers tc =
     ensemble_components d rs all_drivers tc"
  by (auto simp: ensemble_components_def Let_def split: sum.splits prod.splits)

lemma win_probability_bounds:
  "(0.001::real) \<le> max 0.001 (min 0.99 x) \<and> max 0.001 (min 0.99 x) \<le> (0.99::real)"
proof -
  have "(0.001::real) \<le> 0.99" by simp
  then show ?thesis by (metis max.cobounded1 max.boundedI min.cobounded1)
qed

lemma clamped_width_mono:
  assumes "w2 < w1" "w2 < 1"
  shows "min 1 (b + w2 / 2) - max 0 (b - w2 / 2) < min 1 (b + w1 / 2) - max 0 (b - w1 / (2::real))"
  using assms by (auto simp: min_def max_def)

lemma total_width_decreasing:
  assumes "p1 < p2"
  shows "total_width p2 s h < total_width p1 s h"
  using assms by (simp add: total_width_def progress_factor_def)

lemma staleness_factor_capped: "staleness_factor s \<le> 0.10"
  by (simp add: staleness_factor_def)

lemma total_width_below_one:
  assumes "0.1 \<le> p"
  shows "total_width p s h < 1"
proof -
  have "progress_factor p \<le> 0.27" using assms by (simp add: progress_factor_def)
  moreover have "pit_factor h \<le> 0.05" by (simp add: pit_factor_def)
  moreover note staleness_factor_capped [of s]
  ultimately show ?thesis by (simp add: total_width_def)
qed

lemma total_width_floor:
  assumes "0 \<le> s" "p \<le> 1"
  shows "0.05 \<le> total_width p s h"
proof -
  have "0 \<le> progress_factor p" using assms by (simp add: progress_factor_def)
  moreover have "0 \<le> pit_factor h" by (simp add: pit_factor_def)
  moreover have "0 \<le> staleness_factor s" using assms by (simp add: staleness_factor_def)
  ultimately show ?thesis by (simp add: total_width_def)
qed

lemma confidence_interval_value:
  "confidence_interval b p s h =
     (max 0 (b - total_width p s h / 2), min 1 (b + total_width p s h / 2))"
  by (simp add: confidence_interval_def Let_def)

lemma engine_interval:
  assumes "compute_win_probability d rs all_drivers tc = Inr res"
  shows "\<exists>raw. raw_prob d rs all_drivers tc = Inr raw
         \<and> confidence_interval_of res =
             (max 0 (raw - confidence_width_of rs), min 1 (raw + confidence_width_of rs))"
proof -
  from assms obtain base pace strat why sc
    where comps: "ensemble_components d rs all_drivers tc = Inr (base, pace, strat, why, sc)"
    using compute_win_probability_Inr by blast
  have "raw_prob d rs all_drivers tc = Inr (base + pace + strat + sc)"
    by (simp add: raw_prob_def comps)
  moreover from assms compute_win_probability_value [OF comps]
  have "confidence_interval_of res =
          (max 0 (base + pace + strat + sc - confidence_width_of rs),
           min 1 (base + pace + strat + sc + confidence_width_of rs))"
    by auto
  ultimately show ?thesis by blast
qed

lemma raw_prob_progress:
  "raw_prob d (rs \<lparr> race_progress := p \<rparr>) all_drivers tc = raw_prob d rs all_drivers tc"
  by (simp add: raw_prob_def ensemble_components_progress)

lemma engine_width_mono:
  assumes "cw2 < cw1" "cw2 < 1 / 2"
  shows "min 1 (raw + cw2) - max 0 (raw - cw2) < min 1 (raw + cw1) - max 0 (raw - (cw1::real))"
  using clamped_width_mono [of "2 * cw2" "2 * cw1" raw] assms by simp

lemma engine_interval_decreasing:
  assumes "0.1 \<le> p1" "p1 < p2"
    and r1: "compute_win_probability d (rs \<lparr> race_progress := p1 \<rparr>) all_drivers tc = Inr res1"
    and r2: "compute_win_probability d (rs \<lparr> race_progress := p2 \<rparr>) all_drivers tc = Inr res2"
  shows "interval_width (confidence_interval_of res2) < interval_width (confidence_interval_of res1)"
proof -
  from engine_interval [OF r1] obtain raw
    where raw1: "raw_prob d rs all_drivers tc = Inr raw"
      and ci1: "confidence_interval_of res1 =
                  (max 0 (raw - confidence_width_of (rs \<lparr> race_progress := p1 \<rparr>)),
                   min 1 (raw + confidence_width_of (rs \<lparr> race_progress := p1 \<rparr>)))"
    by (auto simp: raw_prob_progress)
  from engine_interval [OF r2] raw1
  have ci2: "confidence_interval_of res2 =
                  (max 0 (raw - confidence_width_of (rs \<lparr> race_progress := p2 \<rparr>)),
                   min 1 (raw + confidence_width_of (rs \<lparr> race_progress := p2 \<rparr>)))"
    by (auto simp: raw_prob_progress)
  have less: "confidence_width_of (rs \<lparr> race_progress := p2 \<rparr>)
                < confidence_width_of (rs \<lparr> race_progress := p1 \<rparr>)"
    using assms(2) by (simp add: confidence_width_of_def)
  have small: "confidence_width_of (rs \<lparr> race_progress := p2 \<rparr>) < 1 / 2"
    using assms(1,2) by (simp add: confidence_width_of_def field_simps)
  from engine_width_mono [OF less small, of raw] show ?thesis
    by (simp only: interval_width_def ci1 ci2 fst_conv snd_conv)
qed

lemma confidence_interval_decreasing:
  assumes "0.1 \<le> p1" "p1 < p2"
  shows "interval_width (confidence_interval b p2 s h)
           < interval_width (confidence_interval b p1 s h)"
proof -
  have less: "total_width p2 s h < total_width p1 s h"
    using assms(2) by (rule total_width_decreasing)
  have "total_width p1 s h < 1" using assms(1) by (rule total_width_below_one)
  with less have small: "total_width p2 s h < 1" by simp
  from clamped_width_mono [OF less small, of b] show ?thesis
    by (simp only: interval_width_def confidence_interval_value fst_conv snd_conv)
qed

lemma confidence_interval_in_unit:
  assumes "0 \<le> b" "b \<le> 1" "p \<le> 1" "0 \<le> s"
  shows "0 \<le> fst (confidence_interval b p s h) \<and> fst (confidence_interval b p s h) \<le> 1
         \<and> 0 \<le> snd (confidence_interval b p s h) \<and> snd (confidence_interval b p s h) \<le> 1
         \<and> fst (confidence_interval b p s h) < snd (confidence_interval b p s h)"
proof -
  have "0.05 \<le> total_width p s h" using assms(4,3) by (rule total_width_floor)
  then have "0 < total_width p s h" by simp
  with assms(1,2) show ?thesis
    by (auto simp: confidence_interval_value min_def max_def)
qed

lemma pace_adjustment_rounded_value:
  "pace_adjustment_rounded rnd d l gap L td =
     Inr (if rounded_pace_delta rnd d l > rnd 0.5 then
            (if computed_closing_feasible rnd d l gap L
             then rnd (rnd 0.15 * rounded_overtake_factor rnd td) else rnd 0.02)
          else if rounded_pace_delta rnd d l > rnd 0.2 then
            (if computed_closing_feasible rnd d l gap L
             then rnd (rnd 0.08 * rounded_overtake_factor rnd td) else rnd 0.01)
          else if rounded_pace_delta rnd d l < - rnd 0.3 then - rnd 0.10
          else rnd 0)"
  by (simp add: pace_adjustment_rounded_def rounded_laps_to_catch_def py_truediv_def
      rounded_can_catch_def computed_closing_feasible_def Let_def)

lemma pace_adjustment_exact:
  "pace_adjustment_rounded (\<lambda>x. x) d l gap L td = pace_adjustment d l gap L td"
  by (simp add: pace_adjustment_rounded_value pace_adjustment_value
      computed_closing_feasible_def closing_feasible_def rounded_pace_delta_def
      pace_delta_of_def rounded_overtake_factor_def)

lemma rounded_overtake_factor_unit:
  assumes m: "mono rnd" and z: "rnd 0 = 0" and o: "rnd 1 = 1"
    and i: "\<And>x. rnd (rnd x) = rnd x" and td: "0 \<le> td" "td \<le> 1"
  shows "0 \<le> rounded_overtake_factor rnd td \<and> rounded_overtake_factor rnd td \<le> 1"
proof -
  have h0: "0 \<le> rnd 0.5" using monoD [OF m, of 0 "0.5"] z by simp
  have h1: "rnd 0.5 \<le> 1" using monoD [OF m, of "0.5" 1] o by simp
  have "0 \<le> td * rnd 0.5" using td(1) h0 by simp
  then have a0: "0 \<le> rnd (td * rnd 0.5)" using monoD [OF m, of 0 "td * rnd 0.5"] z by simp
  have "td * rnd 0.5 \<le> 1 * rnd 0.5" using td(2) h0 by (intro mult_right_mono) simp_all
  then have "td * rnd 0.5 \<le> 1" using h1 by simp
  then have a1: "rnd (td * rnd 0.5) \<le> 1" using monoD [OF m, of "td * rnd 0.5" 1] o by simp
  have "0 \<le> rnd (1 - rnd (td * rnd 0.5))"
    using monoD [OF m, of 0 "1 - rnd (td * rnd 0.5)"] z a1 by simp
  moreover have "rnd (1 - rnd (td * rnd 0.5)) \<le> 1"
    using monoD [OF m, of "1 - rnd (td * rnd 0.5)" 1] o a0 by simp
  ultimately show ?thesis by (simp add: rounded_overtake_factor_def o)
qed

lemma rounded_overtake_factor_antimono:
  assumes m: "mono rnd" and z: "rnd 0 = 0" and le: "td \<le> td'"
  shows "rounded_overtake_factor rnd td' \<le> rounded_overtake_factor rnd td"
proof -
  have h0: "0 \<le> rnd 0.5" using monoD [OF m, of 0 "0.5"] z by simp
  have "td * rnd 0.5 \<le> td' * rnd 0.5" using le h0 by (rule mult_right_mono)
  then have "rnd (td * rnd 0.5) \<le> rnd (td' * rnd 0.5)" by (rule monoD [OF m])
  then have "rnd 1.0 - rnd (td' * rnd 0.5) \<le> rnd 1.0 - rnd (td * rnd 0.5)" by simp
  then show ?thesis unfolding rounded_overtake_factor_def by (rule monoD [OF m])
qed

lemma scaled_adjustment_bounded:
  fixes rnd :: "real \<Rightarrow> real"
  assumes m: "mono rnd" and z: "rnd 0 = 0" and i: "\<And>x. rnd (rnd x) = rnd x"
    and c: "0 \<le> c" and f: "0 \<le> f" "f \<le> 1"
  shows "0 \<le> rnd (rnd c * f) \<and> rnd (rnd c * f) \<le> rnd c"
proof -
  have c0: "0 \<le> rnd c" using monoD [OF m c] z by simp
  have "0 \<le> rnd c * f" using c0 f(1) by simp
  then have lo: "0 \<le> rnd (rnd c * f)" using monoD [OF m, of 0 "rnd c * f"] z by simp
  have "rnd c * f \<le> rnd c * 1" using c0 f(2) by (intro mult_left_mono) simp_all
  then have "rnd (rnd c * f) \<le> rnd (rnd c)" using monoD [OF m, of "rnd c * f" "rnd c"] by simp
  with lo show ?thesis by (simp add: i)
qed

lemma scaled_adjustment_antimono:
  fixes rnd :: "real \<Rightarrow> real"
  assumes m: "mono rnd" and z: "rnd 0 = 0" and c: "0 \<le> c" and le: "f' \<le> f"
  shows "rnd (rnd c * f') \<le> rnd (rnd c * f)"
proof -
  have c0: "0 \<le> rnd c" using monoD [OF m c] z by simp
  have "rnd c * f' \<le> rnd c * f" using le c0 by (rule mult_left_mono)
  then show ?thesis by (rule monoD [OF m])
qed

section \<open>Claims\<close>

text \<open>
  C3 (as amended). For every position \<open>p \<ge> 1\<close>, every laps-remaining value and every
  field size \<open>N\<close>, \<open>position_baseline\<close> returns the weight at index \<open>p\<close> of the table
  chosen by the code's buckets: more than 20 laps remaining, more than 10 and at most
  20, and at most 10 (so exactly 10 laps remaining reads the late-race table). Each
  table has \<open>max 5 N\<close> entries, and a position beyond the table gets the minimal weight
  0.001. In particular, with at most 10 laps remaining position 1 gets 0.85 and
  position 2 gets 0.10.
\<close>

theorem position_baseline_table:
  assumes "1 \<le> p"
  shows "position_baseline p L N =
           Inr (if p \<le> int (length (baseline_weights L N))
                then baseline_weights L N ! nat (p - 1) else 0.001)
         \<and> int (length (baseline_weights L N)) = max 5 N
         \<and> position_baseline p L N =
             Inr (if L > 20 then bucket_value [0.65, 0.18, 0.08, 0.04, 0.02] 0.01 p N
                  else if L > 10 then bucket_value [0.75, 0.14, 0.06, 0.03, 0.01] 0.005 p N
                  else bucket_value [0.85, 0.10, 0.03, 0.015, 0.005] 0.001 p N)
         \<and> (L \<le> 10 \<longrightarrow> position_baseline 1 L N = Inr 0.85 \<and> position_baseline 2 L N = Inr 0.10)"
proof -
  have idx: "position_baseline p L N =
           Inr (if p \<le> int (length (baseline_weights L N))
                then baseline_weights L N ! nat (p - 1) else 0.001)"
    using position_baseline_index [OF assms] by (simp only: length_baseline_weights)
  have late: "L \<le> 10 \<longrightarrow> position_baseline 1 L N = Inr 0.85 \<and> position_baseline 2 L N = Inr 0.10"
    by (simp add: position_baseline_explicit bucket_value_def)
  from idx length_baseline_weights position_baseline_explicit [OF assms] late
  show ?thesis by blast
qed

theorem position_baseline_table_witness:
  "position_baseline 1 5 20 = Inr 0.85 \<and> position_baseline 7 15 20 = Inr 0.005
   \<and> position_baseline 21 30 20 = Inr 0.001"
  using position_baseline_table [of 1 5 20] position_baseline_table [of 7 15 20]
    position_baseline_table [of 21 30 20]
  by (simp add: bucket_value_def baseline_weights_def py_repeat_def)

text \<open>
  C3 (as stated) fails at exactly 10 laps remaining: the specification's bucket
  "10 to 20 laps" holds 0.75 for position 1, the code answers from the late-race table.
\<close>

theorem position_baseline_bucket_counterexample:
  "position_baseline 1 10 20 = Inr 0.85 \<and> spec_bucket_weights 10 20 ! nat (1 - 1) = 0.75"
  by (simp add: position_baseline_def baseline_weights_def spec_bucket_weights_def
      py_index_def py_repeat_def)

text \<open>
  C10. \<open>pace_adjustment\<close> returns a value for every driver, leader, gap, laps-remaining
  and difficulty input: the division of the gap by the pace delta is evaluated only when
  the pace delta is positive, and a zero or negative pace delta takes infinity as the
  laps-to-catch value, so the division never raises.
\<close>

theorem pace_adjustment_total:
  "(\<exists>r. pace_adjustment driver leader gap L td = Inr r)
   \<and> pace_adjustment driver leader gap L td \<noteq> Inl ZeroDivisionError
   \<and> laps_to_catch gap (pace_delta_of driver leader) =
       (if pace_delta_of driver leader > 0
        then Inr (Finite (gap / pace_delta_of driver leader)) else Inr PosInf)"
  by (simp add: pace_adjustment_value laps_to_catch_guarded)


text \<open>
  C5 (as amended). Whatever the rounding of the float arithmetic, \<open>pace_adjustment\<close>
  always returns. For a pace delta above 0.5 (otherwise above 0.2) seconds per lap it
  returns 0.15 (0.08) times the overtake factor \<open>1 - difficulty * 0.5\<close> if the laps needed
  to close the gap, as the code computes them, are fewer than its 90% of the remaining
  laps, and the small fixed positive adjustment 0.02 (0.01) if they are not: a
  difficulty-scaled adjustment is returned only when closing is feasible, and when it is
  not the result is one of the fixed constants 0.02, 0.01, -0.10 and 0. A pace delta
  below -0.3 gives the fixed adjustment -0.10, any other pace delta gives 0. When the
  rounding is monotone, idempotent and exact at 0 and 1, and the difficulty lies in
  \<open>[0, 1]\<close>, the scaled adjustment lies between 0 and the constant it scales, and a larger
  difficulty never gives a larger adjustment.
\<close>

theorem pace_adjustment_cases:
  "\<exists>r. pace_adjustment_rounded rnd d l gap L td = Inr r
     \<and> (rnd 0.5 < rounded_pace_delta rnd d l \<and> computed_closing_feasible rnd d l gap L
          \<longrightarrow> r = rnd (rnd 0.15 * rounded_overtake_factor rnd td))
     \<and> (rnd 0.5 < rounded_pace_delta rnd d l \<and> \<not> computed_closing_feasible rnd d l gap L
          \<longrightarrow> r = rnd 0.02)
     \<and> (\<not> rnd 0.5 < rounded_pace_delta rnd d l \<and> rnd 0.2 < rounded_pace_delta rnd d l
          \<and> computed_closing_feasible rnd d l gap L
          \<longrightarrow> r = rnd (rnd 0.08 * rounded_overtake_factor rnd td))
     \<and> (\<not> rnd 0.5 < rounded_pace_delta rnd d l \<and> rnd 0.2 < rounded_pace_delta rnd d l
          \<and> \<not> computed_closing_feasible rnd d l gap L
          \<longrightarrow> r = rnd 0.01)
     \<and> (\<not> rnd 0.5 < rounded_pace_delta rnd d l \<and> \<not> rnd 0.2 < rounded_pace_delta rnd d l
          \<and> rounded_pace_delta rnd d l < - rnd 0.3
          \<longrightarrow> r = - rnd 0.10)
     \<and> (\<not> rnd 0.5 < rounded_pace_delta rnd d l \<and> \<not> rnd 0.2 < rounded_pace_delta rnd d l
          \<and> \<not> rounded_pace_delta rnd d l < - rnd 0.3
          \<longrightarrow> r = rnd 0)
     \<and> (\<not> computed_closing_feasible rnd d l gap L
          \<longrightarrow> r = rnd 0.02 \<or> r = rnd 0.01 \<or> r = - rnd 0.10 \<or> r = rnd 0)
     \<and> (mono rnd \<and> rnd 0 = 0 \<and> rnd 1 = 1 \<and> (\<forall>x. rnd (rnd x) = rnd x)
          \<and> 0 \<le> td \<and> td \<le> 1
          \<longrightarrow> 0 \<le> rnd (rnd 0.15 * rounded_overtake_factor rnd td)
              \<and> rnd (rnd 0.15 * rounded_overtake_factor rnd td) \<le> rnd 0.15
              \<and> 0 \<le> rnd (rnd 0.08 * rounded_overtake_factor rnd td)
              \<and> rnd (rnd 0.08 * rounded_overtake_factor rnd td) \<le> rnd 0.08)
     \<and> (mono rnd \<and> rnd 0 = 0 \<and> td \<le> td'
          \<longrightarrow> rnd (rnd 0.15 * rounded_overtake_factor rnd td')
                \<le> rnd (rnd 0.15 * rounded_overtake_factor rnd td)
              \<and> rnd (rnd 0.08 * rounded_overtake_factor rnd td')
                \<le> rnd (rnd 0.08 * rounded_overtake_factor rnd td))"
proof -
  have bounded: "mono rnd \<and> rnd 0 = 0 \<and> rnd 1 = 1 \<and> (\<forall>x. rnd (rnd x) = rnd x)
          \<and> 0 \<le> td \<and> td \<le> 1
          \<longrightarrow> 0 \<le> rnd (rnd 0.15 * rounded_overtake_factor rnd td)
              \<and> rnd (rnd 0.15 * rounded_overtake_factor rnd td) \<le> rnd 0.15
              \<and> 0 \<le> rnd (rnd 0.08 * rounded_overtake_factor rnd td)
              \<and> rnd (rnd 0.08 * rounded_overtake_factor rnd td) \<le> rnd 0.08"
  proof
    assume a: "mono rnd \<and> rnd 0 = 0 \<and> rnd 1 = 1 \<and> (\<forall>x. rnd (rnd x) = rnd x)
          \<and> 0 \<le> td \<and> td \<le> 1"
    then have f: "0 \<le> rounded_overtake_factor rnd td \<and> rounded_overtake_factor rnd td \<le> 1"
      using rounded_overtake_factor_unit [of rnd td] by blast
    from a f scaled_adjustment_bounded [of rnd "0.15" "rounded_overtake_factor rnd td"]
      scaled_adjustment_bounded [of rnd "0.08" "rounded_overtake_factor rnd td"]
    show "0 \<le> rnd (rnd 0.15 * rounded_overtake_factor rnd td)
              \<and> rnd (rnd 0.15 * rounded_overtake_factor rnd td) \<le> rnd 0.15
              \<and> 0 \<le> rnd (rnd 0.08 * rounded_overtake_factor rnd td)
              \<and> rnd (rnd 0.08 * rounded_overtake_factor rnd td) \<le> rnd 0.08"
      by simp
  qed
  have scaled_down: "mono rnd \<and> rnd 0 = 0 \<and> td \<le> td'
          \<longrightarrow> rnd (rnd 0.15 * rounded_overtake_factor rnd td')
                \<le> rnd (rnd 0.15 * rounded_overtake_factor rnd td)
              \<and> rnd (rnd 0.08 * rounded_overtake_factor rnd td')
                \<le> rnd (rnd 0.08 * rounded_overtake_factor rnd td)"
  proof
    assume a: "mono rnd \<and> rnd 0 = 0 \<and> td \<le> td'"
    then have f: "rounded_overtake_factor rnd td' \<le> rounded_overtake_factor rnd td"
      using rounded_overtake_factor_antimono [of rnd td td'] by blast
    from a f
      scaled_adjustment_antimono [of rnd "0.15" "rounded_overtake_factor rnd td'"
        "rounded_overtake_factor rnd td"]
      scaled_adjustment_antimono [of rnd "0.08" "rounded_overtake_factor rnd td'"
        "rounded_overtake_factor rnd td"]
    show "rnd (rnd 0.15 * rounded_overtake_factor rnd td')
                \<le> rnd (rnd 0.15 * rounded_overtake_factor rnd td)
              \<and> rnd (rnd 0.08 * rounded_overtake_factor rnd td')
                \<le> rnd (rnd 0.08 * rounded_overtake_factor rnd td)"
      by simp
  qed
  from bounded scaled_down show ?thesis
    by (simp only: pace_adjustment_rounded_value) auto
qed

theorem pace_adjustment_cases_witness:
  "mono (\<lambda>x::real. x)
   \<and> computed_closing_feasible (\<lambda>x. x) chaser_example leader_example 5 10
   \<and> pace_adjustment_rounded (\<lambda>x. x) chaser_example leader_example 5 10 0.4 = Inr 0.12
   \<and> \<not> computed_closing_feasible (\<lambda>x. x) chaser_example leader_example 100 10
   \<and> pace_adjustment_rounded (\<lambda>x. x) chaser_example leader_example 100 10 0.4 = Inr 0.02"
proof -
  have m: "mono (\<lambda>x::real. x)" by (simp add: mono_def)
  have f: "computed_closing_feasible (\<lambda>x. x) chaser_example leader_example 5 10"
    by (simp add: computed_closing_feasible_def rounded_pace_delta_def example_defs)
  have fast: "(0.5::real) < rounded_pace_delta (\<lambda>x. x) chaser_example leader_example"
    by (simp add: rounded_pace_delta_def example_defs)
  have n: "\<not> computed_closing_feasible (\<lambda>x. x) chaser_example leader_example 100 10"
    by (simp add: computed_closing_feasible_def rounded_pace_delta_def example_defs)
  from pace_adjustment_cases [of "\<lambda>x. x" chaser_example leader_example 5 10 "0.4" "0.4"] f fast
  have near: "pace_adjustment_rounded (\<lambda>x. x) chaser_example leader_example 5 10 0.4
                = Inr (0.15 * rounded_overtake_factor (\<lambda>x. x) 0.4)"
    by auto
  from pace_adjustment_cases [of "\<lambda>x. x" chaser_example leader_example 100 10 "0.4" "0.4"] n fast
  have far: "pace_adjustment_rounded (\<lambda>x. x) chaser_example leader_example 100 10 0.4
                = Inr 0.02"
    by auto
  from near have "pace_adjustment_rounded (\<lambda>x. x) chaser_example leader_example 5 10 0.4
                = Inr 0.12"
    by (simp add: rounded_overtake_factor_def)
  with m f n far show ?thesis by blast
qed

text \<open>
  C5 (as stated) fails: a driver one second per lap faster with a gap of 100 seconds and
  10 laps remaining cannot close in time, and the adjustment is still strictly positive.
\<close>

theorem pace_adjustment_positive_counterexample:
  "pace_adjustment chaser_example leader_example 100 10 0.4 = Inr 0.02
   \<and> \<not> closing_feasible chaser_example leader_example 100 10"
  by (simp add: pace_adjustment_value closing_feasible_def pace_delta_of_def example_defs)

text \<open>
  C6. Under a caution flag (SC, VSC, YELLOW) the entrant in position 1 gets the fixed
  adjustment -0.10, positions 2 to 5 get \<open>0.05 + (5 - position) * 0.02\<close>, which is
  positive and strictly smaller for a larger position, and every position beyond 5 gets
  the flat gain 0.02. Under any other flag the adjustment is exactly zero. So replacing
  a non-caution flag by a caution flag, everything else unchanged, lowers the raw score
  of the entrant in position 1 by exactly 0.10.
\<close>

theorem safety_car_adjustment_cases:
  "(caution_flag flag \<longrightarrow>
      (position d = 1 \<longrightarrow> safety_car_adjustment d flag g L = - 0.10)
      \<and> (2 \<le> position d \<and> position d \<le> 5 \<longrightarrow>
           safety_car_adjustment d flag g L = 0.05 + of_int (5 - position d) * 0.02
           \<and> 0.02 < safety_car_adjustment d flag g L)
      \<and> (2 \<le> position d \<and> position d < position d' \<and> position d' \<le> 5 \<longrightarrow>
           safety_car_adjustment d' flag g' L' < safety_car_adjustment d flag g L)
      \<and> (5 < position d \<longrightarrow> safety_car_adjustment d flag g L = 0.02))
   \<and> (\<not> caution_flag flag \<longrightarrow> safety_car_adjustment d flag g L = 0)
   \<and> (position d = 1 \<and> \<not> caution_flag (flag_status rs) \<and> caution_flag flag'
        \<and> raw_prob d rs all_drivers tc = Inr r \<longrightarrow>
        raw_prob d (rs \<lparr> flag_status := flag' \<rparr>) all_drivers tc = Inr (r - 0.10))"
proof -
  have flat: "\<not> caution_flag flag \<longrightarrow> safety_car_adjustment d flag g L = 0"
    by (simp add: safety_car_adjustment_def caution_flag_def)
  have caution: "caution_flag flag \<longrightarrow>
      (position d = 1 \<longrightarrow> safety_car_adjustment d flag g L = - 0.10)
      \<and> (2 \<le> position d \<and> position d \<le> 5 \<longrightarrow>
           safety_car_adjustment d flag g L = 0.05 + of_int (5 - position d) * 0.02
           \<and> 0.02 < safety_car_adjustment d flag g L)
      \<and> (2 \<le> position d \<and> position d < position d' \<and> position d' \<le> 5 \<longrightarrow>
           safety_car_adjustment d' flag g' L' < safety_car_adjustment d flag g L)
      \<and> (5 < position d \<longrightarrow> safety_car_adjustment d flag g L = 0.02)"
  proof
    assume c: "caution_flag flag"
    have mid: "0.02 < 0.05 + real_of_int (5 - position d) * 0.02" if "position d \<le> 5"
      using that by (intro decaying_gain_above_flat) simp
    have decay: "0.05 + real_of_int (5 - position d') * 0.02
                   < 0.05 + real_of_int (5 - position d) * 0.02" if "position d < position d'"
      using that by simp
    from c mid decay show "(position d = 1 \<longrightarrow> safety_car_adjustment d flag g L = - 0.10)
      \<and> (2 \<le> position d \<and> position d \<le> 5 \<longrightarrow>
           safety_car_adjustment d flag g L = 0.05 + of_int (5 - position d) * 0.02
           \<and> 0.02 < safety_car_adjustment d flag g L)
      \<and> (2 \<le> position d \<and> position d < position d' \<and> position d' \<le> 5 \<longrightarrow>
           safety_car_adjustment d' flag g' L' < safety_car_adjustment d flag g L)
      \<and> (5 < position d \<longrightarrow> safety_car_adjustment d flag g L = 0.02)"
      by (simp add: safety_car_adjustment_caution)
  qed
  have transition: "position d = 1 \<and> \<not> caution_flag (flag_status rs) \<and> caution_flag flag'
        \<and> raw_prob d rs all_drivers tc = Inr r \<longrightarrow>
        raw_prob d (rs \<lparr> flag_status := flag' \<rparr>) all_drivers tc = Inr (r - 0.10)"
    by (auto simp: raw_prob_def ensemble_components_def Let_def safety_car_adjustment_def
        caution_flag_def split: sum.splits prod.splits)
  from flat caution transition show ?thesis by blast
qed

theorem safety_car_adjustment_cases_witness:
  "caution_flag ''SC'' \<and> \<not> caution_flag (flag_status green_race_example)
   \<and> safety_car_adjustment leader_example ''SC'' 0 5 = - 0.10
   \<and> safety_car_adjustment chaser_example ''SC'' 100 5 = 0.11
   \<and> raw_prob leader_example green_race_example [leader_example] track_example = Inr 0.85
   \<and> raw_prob leader_example (green_race_example \<lparr> flag_status := ''SC'' \<rparr>)
       [leader_example] track_example = Inr 0.75"
  using safety_car_adjustment_cases [of "''SC''" leader_example 0 5 chaser_example 100 5
      green_race_example "''SC''" "[leader_example]" track_example "0.85"]
    safety_car_adjustment_cases [of "''SC''" chaser_example 100 5 chaser_example 100 5
      green_race_example "''SC''" "[leader_example]" track_example "0.85"]
  by (simp add: caution_flag_def example_defs engine_defs)


text \<open>
  C7 (as amended). For every driver and every non-empty competitor list,
  \<open>strategy_projection\<close> returns -0.05 with the explanation "Undercut vulnerable to P"
  and the position behind when a competitor one position behind has tires more than 5
  laps fresher; otherwise it returns 0.05 with the overcut explanation when the driver
  is on the hard compound, is not in position 1 and the first entry of the list is on
  soft or medium tires more than 15 laps old; otherwise it returns 0 with the
  explanation "Strategy neutral".
\<close>

theorem strategy_projection_cases:
  assumes "competitors \<noteq> []"
  shows "strategy_projection driver competitors L pit_loss =
           Inr (if undercut_condition driver competitors then
                  (- 0.05, ''Undercut vulnerable to P'' @ str_int (position driver + 1))
                else if overcut_condition driver competitors then
                  (0.05, ''Overcut potential as leader on worn tires'')
                else (0, ''Strategy neutral''))"
  using assms by (rule strategy_projection_nonempty)

theorem strategy_projection_cases_witness:
  "strategy_projection hard_chaser_example
       [soft_leader_example, hard_chaser_example, third_example] 30 25
     = Inr (- 0.05, ''Undercut vulnerable to P3'')
   \<and> strategy_projection hard_chaser_example [soft_leader_example, hard_chaser_example] 30 25
     = Inr (0.05, ''Overcut potential as leader on worn tires'')
   \<and> strategy_projection chaser_example [leader_example, chaser_example] 30 25
     = Inr (0, ''Strategy neutral'')"
  using strategy_projection_cases
      [of "[soft_leader_example, hard_chaser_example, third_example]" hard_chaser_example 30 25]
    strategy_projection_cases
      [of "[soft_leader_example, hard_chaser_example]" hard_chaser_example 30 25]
    strategy_projection_cases [of "[leader_example, chaser_example]" chaser_example 30 25]
  by (simp add: undercut_condition_def overcut_condition_def example_defs str_int_def
      str_nat.simps)

text \<open>
  C7 (as stated) fails: a driver in second place on fresh medium tires trails a leader
  on soft tires that are 20 laps old, nobody is behind, and the projection is neutral
  because the driver is not on the hard compound.
\<close>

theorem strategy_projection_overcut_counterexample:
  "spec_overcut_potential chaser_example [soft_leader_example, chaser_example]
   \<and> \<not> undercut_condition chaser_example [soft_leader_example, chaser_example]
   \<and> strategy_projection chaser_example [soft_leader_example, chaser_example] 30 25
       = Inr (0, ''Strategy neutral'')"
  by (simp add: strategy_projection_value spec_overcut_potential_def undercut_condition_def
      example_defs)


text \<open>
  C1. Whenever \<open>compute_win_probability\<close> returns, the win probability of the result is
  the sum of the four components (position baseline, pace adjustment, strategy
  projection, safety-car adjustment) of that entrant, clamped to \<open>[0.001, 0.99]\<close>; no
  other entrant's score enters and nothing is normalized across the field. It returns
  for every non-empty driver list and every position of at least 1.
\<close>

theorem win_probability_clamped_sum:
  "(\<forall>res. compute_win_probability d rs all_drivers tc = Inr res \<longrightarrow>
      (\<exists>leader rest base pace strat why.
          all_drivers = leader # rest
          \<and> position_baseline (position d) (total_laps rs - current_lap rs)
                (int (length all_drivers)) = Inr base
          \<and> pace_adjustment d leader (gap_to_leader d) (total_laps rs - current_lap rs)
                (overtake_difficulty tc) = Inr pace
          \<and> strategy_projection d all_drivers (total_laps rs - current_lap rs)
                (pit_time_loss tc) = Inr (strat, why)
          \<and> win_probability res =
                max 0.001 (min 0.99 (base + pace + strat
                  + safety_car_adjustment d (flag_status rs) (gap_to_leader d)
                      (total_laps rs - current_lap rs))))
      \<and> 0.001 \<le> win_probability res \<and> win_probability res \<le> 0.99)
   \<and> (all_drivers \<noteq> [] \<and> 1 \<le> position d \<longrightarrow>
        (\<exists>res. compute_win_probability d rs all_drivers tc = Inr res))"
proof (intro conjI allI impI)
  fix res
  assume ret: "compute_win_probability d rs all_drivers tc = Inr res"
  then obtain base pace strat why sc
    where comps: "ensemble_components d rs all_drivers tc = Inr (base, pace, strat, why, sc)"
    using compute_win_probability_Inr by blast
  from ret compute_win_probability_value [OF comps]
  have wp: "win_probability res = max 0.001 (min 0.99 (base + pace + strat + sc))"
    by auto
  from ensemble_components_parts [OF comps] wp
  show "\<exists>leader rest base pace strat why.
          all_drivers = leader # rest
          \<and> position_baseline (position d) (total_laps rs - current_lap rs)
                (int (length all_drivers)) = Inr base
          \<and> pace_adjustment d leader (gap_to_leader d) (total_laps rs - current_lap rs)
                (overtake_difficulty tc) = Inr pace
          \<and> strategy_projection d all_drivers (total_laps rs - current_lap rs)
                (pit_time_loss tc) = Inr (strat, why)
          \<and> win_probability res =
                max 0.001 (min 0.99 (base + pace + strat
                  + safety_car_adjustment d (flag_status rs) (gap_to_leader d)
                      (total_laps rs - current_lap rs)))"
    by blast
  from wp win_probability_bounds [of "base + pace + strat + sc"]
  show "0.001 \<le> win_probability res" by (simp only:)
  from wp win_probability_bounds [of "base + pace + strat + sc"]
  show "win_probability res \<le> 0.99" by (simp only:)
next
  assume "all_drivers \<noteq> [] \<and> 1 \<le> position d"
  then obtain leader rest where l: "all_drivers = leader # rest" and p: "1 \<le> position d"
    by (cases all_drivers) auto
  from ensemble_components_value [OF p, of rs leader rest tc] l
  obtain c where "ensemble_components d rs all_drivers tc = Inr c" by blast
  then show "\<exists>res. compute_win_probability d rs all_drivers tc = Inr res"
    by (cases c) (simp add: compute_win_probability_def Let_def)
qed

theorem win_probability_clamped_sum_witness:
  "field_example \<noteq> [] \<and> 1 \<le> position backmarker_example
   \<and> (\<exists>res. compute_win_probability backmarker_example green_race_example field_example
               track_example = Inr res
             \<and> win_probability res = 0.001)"
proof -
  have pre: "field_example \<noteq> [] \<and> 1 \<le> position backmarker_example"
    by (simp add: example_defs)
  with win_probability_clamped_sum
    [of backmarker_example green_race_example field_example track_example]
  obtain res where res: "compute_win_probability backmarker_example green_race_example
      field_example track_example = Inr res"
    by blast
  then have "win_probability res = 0.001"
    by (simp add: example_defs engine_defs undercut_condition_def) auto
  with pre res show ?thesis by blast
qed


text \<open>
  C4 fails on the code. \<open>compute_win_probability\<close> builds the interval from the raw
  score before it is clamped, with one clamp per bound. For the slow car in eighth place
  of the example grid, five laps from the end under green, the raw score is -0.149 and
  the half-width 0.075: the result carries the win probability 0.001 with the lower
  bound 0 and a negative upper bound, below the lower bound and outside \<open>[0, 1]\<close>.
\<close>

theorem engine_interval_out_of_range_example:
  "\<exists>res. compute_win_probability backmarker_example late_race_example grid_example
            track_example = Inr res
         \<and> raw_prob backmarker_example late_race_example grid_example track_example
             = Inr (- 0.149)
         \<and> confidence_width_of late_race_example = 0.075
         \<and> win_probability res = 0.001
         \<and> fst (confidence_interval_of res) = 0
         \<and> snd (confidence_interval_of res) = - 0.074
         \<and> snd (confidence_interval_of res) < fst (confidence_interval_of res)"
proof -
  have comps: "ensemble_components backmarker_example late_race_example grid_example
      track_example = Inr (0.001, - 0.10, - 0.05, ''Undercut vulnerable to P9'', 0)"
    by (simp add: ensemble_components_def position_baseline_def baseline_weights_def
        py_repeat_def py_index_def pace_adjustment_value closing_feasible_def
        pace_delta_of_def strategy_projection_value undercut_condition_def
        safety_car_adjustment_def example_defs grid_defs str_int_def str_nat.simps)
  have raw: "raw_prob backmarker_example late_race_example grid_example track_example
      = Inr (- 0.149)"
    by (simp add: raw_prob_def comps)
  have cw: "confidence_width_of late_race_example = 0.075"
    by (simp add: confidence_width_of_def late_race_example_def)
  from compute_win_probability_value [OF comps] raw cw show ?thesis
    by simp
qed

text \<open>
  C9 fails on the code: under a green flag with a neutral strategy the factor list of
  the leader holds two strings and two \<open>None\<close> placeholders.
\<close>

theorem key_factors_placeholder_example:
  "compute_win_probability leader_example green_race_example [leader_example] track_example
     = Inr \<lparr> pr_driver_id = ''44'', win_probability = 0.85,
             confidence_interval_of = (0.775, 0.925),
             key_factors =
               [Some ''Position: P1'', Some ''Pace: +0.0% adjustment'', None, None] \<rparr>"
  by (simp add: engine_defs example_defs)

end
